theory Spec2Isabelle
  imports Main "HOL-Library.Word" "HOL-Library.AList"
begin

section \<open>Everoute datapath manager: data model\<close>

text \<open>
  The embedding follows the Go package \<open>datapath\<close>: the datapath manager
  (\<open>DpManager\<close> and its methods) and the policy bridge (\<open>policyBridge.go\<close>).
  Go maps are association lists; the order of a list stands for the order in which one
  \<open>range\<close> statement happens to visit the map, so a statement proved for every list
  holds for every iteration order. A nil pointer is \<open>None\<close>, a nil slice is \<open>[]\<close>.
\<close>

subsection \<open>Outcomes and errors\<close>

text \<open>
  A call either returns, or the process ends: \<open>log.Fatalf\<close> exits it, a method
  call through a nil pointer or nil interface panics, and so does a failed type assertion.
\<close>

datatype crash = FatalExit | NilDereference | TypeAssertionPanic

datatype 'a outcome = Crashed crash | Returned 'a

text \<open>
  Go errors are made with \<open>errors.New\<close> and \<open>fmt.Errorf\<close>; one constructor per
  message of the source, a wrapping message keeping the error it wraps.
\<close>

datatype error =
    LibraryError string
  | FailedToGetExternalIds error
  | BadRoundNumber string
  | UnknownPolicyTier
  | FailedGetPolicyTable
  | ParseCIDRError string
  | FailedToParseIPAddress
  | UnknownActionInRule
  | OldLocalEndpointNotFound
  | NewLocalEndpointAlreadyExists
  | FailedToRemoveOldLocalEndpoint error
  | FailedToAddLocalEndpoint error
  | FailedToRemoveLocalEndpoint error
  | EndpointNotFound
  | RuleNotFound
  | FailedToGetRoundInfo error
  | FailedToReplayLocalEndpointFlow error
  | FailedToReplayMicroSegmentFlow error
  | FailedToAddMicroSegmentRule error

subsection \<open>Round information\<close>

record RoundInfo =
  previousRoundNum :: "64 word"
  curRoundNum :: "64 word"

definition datapathRestartRound :: string where
  "datapathRestartRound = ''datapathRestartRound''"

text \<open>
  \<open>strconv.ParseUint(s, 10, 64)\<close> of the Go standard library: a non-empty string of
  decimal digits whose value fits 64 bits; no sign, no underscore (base 10 is given
  explicitly). Anything else is a syntax or range error.
\<close>

definition isDecimalDigit :: "char \<Rightarrow> bool" where
  "isDecimalDigit c = (c \<in> set ''0123456789'')"

definition decimalValue :: "string \<Rightarrow> nat" where
  "decimalValue s = fold (\<lambda>c n. 10 * n + (of_char c - 48)) s 0"

definition ParseUint :: "string \<Rightarrow> (64 word) option" where
  "ParseUint s =
     (if s = [] then None
      else if list_all isDecimalDigit s then
        (if decimalValue s < 2 ^ 64 then Some (of_nat (decimalValue s)) else None)
      else None)"

text \<open>
  \<open>getRoundInfo\<close> reads the external-ids of the LOCAL bridge through the switch
  database driver. The answer of \<open>GetExternalIds\<close> is the argument: an error of the
  driver, or the external-ids map. A \<open>RoundInfo\<close> literal that names only
  \<open>curRoundNum\<close> leaves \<open>previousRoundNum\<close> at Go's zero value.
\<close>

definition getRoundInfo :: "error + (string \<times> string) list \<Rightarrow> error + RoundInfo" where
  "getRoundInfo driverAnswer =
     (case driverAnswer of
        Inl err \<Rightarrow> Inl (FailedToGetExternalIds err)
      | Inr externalIds \<Rightarrow>
          if length externalIds = 0 then
            Inr \<lparr>previousRoundNum = 0, curRoundNum = 1\<rparr>
          else
            (case map_of externalIds datapathRestartRound of
               None \<Rightarrow> Inr \<lparr>previousRoundNum = 0, curRoundNum = 1\<rparr>
             | Some roundNum \<Rightarrow>
                 (case ParseUint roundNum of
                    None \<Rightarrow> Inl (BadRoundNumber roundNum)
                  | Some num \<Rightarrow> Inr \<lparr>previousRoundNum = num, curRoundNum = num + 1\<rparr>)))"

subsection \<open>Endpoints, rules and flow entries\<close>

text \<open>
  \<open>net.IP\<close> is a byte slice. \<open>Priority\<close> is a Go \<open>int\<close>; the only use made of it
  is the conversion \<open>uint16(rule.Priority)\<close>, which keeps the low 16 bits.
\<close>

type_synonym IP = "8 word list"

record Endpoint =
  InterfaceName :: string
  IPAddr :: IP
  IPv6Addr :: IP
  PortNo :: "32 word"
  MacAddrStr :: string
  VlanID :: "16 word"
  BridgeName :: string

record EveroutePolicyRule =
  RuleID :: string
  Priority :: int
  SrcIPAddr :: string
  DstIPAddr :: string
  IPProtocol :: "8 word"
  SrcPort :: "16 word"
  SrcPortMask :: "16 word"
  DstPort :: "16 word"
  DstPortMask :: "16 word"
  Action :: string

text \<open>
  A \<open>*ofctrl.Table\<close> is the number of a table of the bridge's switch, \<open>None\<close> for the
  nil pointer. The fields of \<open>FlowEntry\<close> are \<open>Table\<close>, \<open>Priority\<close> and \<open>FlowID\<close> in
  the source; \<open>Priority\<close> is renamed since the rule has a field of that name.
\<close>

record FlowEntry =
  Table :: "8 word option"
  EntryPriority :: "16 word"
  FlowID :: "64 word"

record EveroutePolicyRuleEntry =
  EntryRule :: EveroutePolicyRule
  Direction :: "8 word"
  Tier :: "8 word"
  RuleFlowMap :: "(string \<times> FlowEntry) list"

definition RuleIsSame :: "EveroutePolicyRule \<Rightarrow> EveroutePolicyRule \<Rightarrow> bool" where
  "RuleIsSame r1 r2 = (r1 = r2)"

subsection \<open>Constants\<close>

definition POLICY_TIER0 :: "8 word" where "POLICY_TIER0 = 50"
definition POLICY_TIER1 :: "8 word" where "POLICY_TIER1 = 100"
definition POLICY_TIER2 :: "8 word" where "POLICY_TIER2 = 150"

definition POLICY_DIRECTION_OUT :: "8 word" where "POLICY_DIRECTION_OUT = 0"
definition POLICY_DIRECTION_IN :: "8 word" where "POLICY_DIRECTION_IN = 1"

definition IP_BROADCAST_ADDR :: string where "IP_BROADCAST_ADDR = ''255.255.255.255''"
definition PROTOCOL_IP :: "16 word" where "PROTOCOL_IP = 0x0800"

definition LOCAL_BRIDGE_KEYWORD :: string where "LOCAL_BRIDGE_KEYWORD = ''local''"
definition POLICY_BRIDGE_KEYWORD :: string where "POLICY_BRIDGE_KEYWORD = ''policy''"
definition CLS_BRIDGE_KEYWORD :: string where "CLS_BRIDGE_KEYWORD = ''cls''"
definition UPLINK_BRIDGE_KEYWORD :: string where "UPLINK_BRIDGE_KEYWORD = ''uplink''"

definition INPUT_TABLE :: "8 word" where "INPUT_TABLE = 0"
definition CT_STATE_TABLE :: "8 word" where "CT_STATE_TABLE = 1"
definition DIRECTION_SELECTION_TABLE :: "8 word" where "DIRECTION_SELECTION_TABLE = 10"
definition EGRESS_TIER0_TABLE :: "8 word" where "EGRESS_TIER0_TABLE = 20"
definition EGRESS_TIER1_TABLE :: "8 word" where "EGRESS_TIER1_TABLE = 25"
definition EGRESS_TIER2_TABLE :: "8 word" where "EGRESS_TIER2_TABLE = 30"
definition INGRESS_TIER0_TABLE :: "8 word" where "INGRESS_TIER0_TABLE = 50"
definition INGRESS_TIER1_TABLE :: "8 word" where "INGRESS_TIER1_TABLE = 55"
definition INGRESS_TIER2_TABLE :: "8 word" where "INGRESS_TIER2_TABLE = 60"
definition CT_COMMIT_TABLE :: "8 word" where "CT_COMMIT_TABLE = 70"
definition SFC_POLICY_TABLE :: "8 word" where "SFC_POLICY_TABLE = 80"
definition POLICY_FORWARDING_TABLE :: "8 word" where "POLICY_FORWARDING_TABLE = 90"

subsection \<open>The libraries the bridge calls\<close>

text \<open>
  The OpenFlow client (\<open>ofctrl\<close>) and Go's \<open>net\<close> package are not part of the
  repository. What a call does when it succeeds is modelled below; when the client
  refuses a call, and what \<open>net.ParseIP\<close> and \<open>net.ParseCIDR\<close> answer, are parameters
  (the record \<open>extlib\<close>), so every statement holds for each behaviour of the libraries.

  The switch keeps the flows made so far. \<open>Table.NewFlow\<close> makes a flow with a fresh
  flow id; the flow reaches the switch when \<open>Flow.Next\<close> gives it its next element.
\<close>

datatype Elem = TableElem "8 word" | DropAction

record FlowMatch =
  MatchPriority :: "16 word"
  Ethertype :: "16 word"
  IpDa :: "IP option"
  IpDaMask :: "IP option"
  IpSa :: "IP option"
  IpSaMask :: "IP option"
  IpProto :: "8 word"
  TcpSrcPort :: "16 word"
  TcpSrcPortMask :: "16 word"
  TcpDstPort :: "16 word"
  TcpDstPortMask :: "16 word"
  UdpSrcPort :: "16 word"
  UdpSrcPortMask :: "16 word"
  UdpDstPort :: "16 word"
  UdpDstPortMask :: "16 word"

record Flow =
  FlowTable :: "8 word"
  Match :: FlowMatch
  FlowIDOf :: "64 word"
  NextElem :: "Elem option"

record OFSwitch =
  flowDb :: "Flow list"
  globalFlowID :: "64 word"
  CookieAllocator :: "64 word"

record extlib =
  ParseIP :: "string \<Rightarrow> IP"
  ParseCIDR :: "string \<Rightarrow> (IP \<times> IP) option"
  MaskIP :: "IP \<Rightarrow> IP \<Rightarrow> IP"
  NewFlowRefused :: "8 word \<Rightarrow> FlowMatch \<Rightarrow> OFSwitch \<Rightarrow> bool"
  NextRefused :: "Flow \<Rightarrow> Elem \<Rightarrow> OFSwitch \<Rightarrow> bool"
  DeleteFlowRefused :: "8 word \<Rightarrow> 16 word \<Rightarrow> 64 word \<Rightarrow> OFSwitch \<Rightarrow> bool"

definition NewFlow ::
  "extlib \<Rightarrow> 8 word option \<Rightarrow> FlowMatch \<Rightarrow> OFSwitch \<Rightarrow> ((error + Flow) \<times> OFSwitch) outcome" where
  "NewFlow lib tbl m sw =
     (case tbl of
        None \<Rightarrow> Crashed NilDereference
      | Some t \<Rightarrow>
          if NewFlowRefused lib t m sw then Returned (Inl (LibraryError ''NewFlow''), sw)
          else
            (let flow = \<lparr>FlowTable = t, Match = m, FlowIDOf = globalFlowID sw, NextElem = None\<rparr>
             in Returned (Inr flow,
                  sw\<lparr>flowDb := flowDb sw @ [flow], globalFlowID := globalFlowID sw + 1\<rparr>)))"

definition setNext :: "64 word \<Rightarrow> Elem \<Rightarrow> Flow \<Rightarrow> Flow" where
  "setNext fid e f = (if FlowIDOf f = fid then f\<lparr>NextElem := Some e\<rparr> else f)"

definition Next :: "extlib \<Rightarrow> Flow \<Rightarrow> Elem option \<Rightarrow> OFSwitch \<Rightarrow> (error option \<times> OFSwitch) outcome" where
  "Next lib flow elem sw =
     (case elem of
        None \<Rightarrow> Crashed NilDereference
      | Some e \<Rightarrow>
          if NextRefused lib flow e sw then Returned (Some (LibraryError ''Next''), sw)
          else Returned (None, sw\<lparr>flowDb := map (setNext (FlowIDOf flow) e) (flowDb sw)\<rparr>))"

definition flowIs :: "8 word \<Rightarrow> 16 word \<Rightarrow> 64 word \<Rightarrow> Flow \<Rightarrow> bool" where
  "flowIs t prio fid f = (FlowTable f = t \<and> MatchPriority (Match f) = prio \<and> FlowIDOf f = fid)"

definition DeleteFlow ::
  "extlib \<Rightarrow> 8 word option \<Rightarrow> 16 word \<Rightarrow> 64 word \<Rightarrow> OFSwitch \<Rightarrow> (error option \<times> OFSwitch) outcome" where
  "DeleteFlow lib tbl prio fid sw =
     (case tbl of
        None \<Rightarrow> Crashed NilDereference
      | Some t \<Rightarrow>
          if DeleteFlowRefused lib t prio fid sw then Returned (Some (LibraryError ''DeleteFlow''), sw)
          else Returned (None, sw\<lparr>flowDb := filter (\<lambda>f. \<not> flowIs t prio fid f) (flowDb sw)\<rparr>))"

text \<open>The flows that have reached the switch: those with a next element.\<close>

definition installedFlows :: "OFSwitch \<Rightarrow> Flow list" where
  "installedFlows sw = filter (\<lambda>f. NextElem f \<noteq> None) (flowDb sw)"

subsection \<open>The policy bridge\<close>

text \<open>
  \<open>OfSwitch\<close> is set by \<open>SwitchConnected\<close> before the flag \<open>isPolicySwitchConnected\<close>
  is raised, and reset by \<open>SwitchDisconnected\<close> after the flag is lowered; the model
  keeps the switch and the flag. In this sequential model nothing raises the flag while
  \<open>WaitForSwitchConnection\<close> polls it, so a wait on a disconnected bridge ends in
  \<open>log.Fatalf\<close>.
\<close>

record PolicyBridge =
  name :: string
  OfSwitch :: OFSwitch
  inputTable :: "8 word option"
  ctStateTable :: "8 word option"
  directionSelectionTable :: "8 word option"
  egressTier0PolicyTable :: "8 word option"
  egressTier1PolicyTable :: "8 word option"
  egressTier2PolicyTable :: "8 word option"
  ingressTier0PolicyTable :: "8 word option"
  ingressTier1PolicyTable :: "8 word option"
  ingressTier2PolicyTable :: "8 word option"
  ctCommitTable :: "8 word option"
  sfcPolicyTable :: "8 word option"
  policyForwardingTable :: "8 word option"
  isPolicySwitchConnected :: bool

definition GetTierTable ::
  "PolicyBridge \<Rightarrow> 8 word \<Rightarrow> 8 word \<Rightarrow> error + (8 word option \<times> 8 word option)" where
  "GetTierTable p direction tier =
     (if direction = POLICY_DIRECTION_OUT then
        (if tier = POLICY_TIER0 then Inr (egressTier0PolicyTable p, egressTier1PolicyTable p)
         else if tier = POLICY_TIER1 then Inr (egressTier1PolicyTable p, ctCommitTable p)
         else if tier = POLICY_TIER2 then Inr (egressTier2PolicyTable p, ctCommitTable p)
         else Inl UnknownPolicyTier)
      else if direction = POLICY_DIRECTION_IN then
        (if tier = POLICY_TIER0 then Inr (ingressTier0PolicyTable p, ingressTier1PolicyTable p)
         else if tier = POLICY_TIER1 then Inr (ingressTier1PolicyTable p, ctCommitTable p)
         else if tier = POLICY_TIER2 then Inr (ingressTier2PolicyTable p, ctCommitTable p)
         else Inl UnknownPolicyTier)
      else Inr (None, None))"

definition ParseIPAddrMaskString :: "extlib \<Rightarrow> string \<Rightarrow> error + (IP \<times> IP)" where
  "ParseIPAddrMaskString lib ipAddr =
     (if CHR ''/'' \<in> set ipAddr then
        (case ParseCIDR lib ipAddr of
           None \<Rightarrow> Inl (ParseCIDRError ipAddr)
         | Some (ipDav, netMask) \<Rightarrow>
             Inr (ipDav, MaskIP lib (ParseIP lib IP_BROADCAST_ADDR) netMask))
      else
        (let ipDa = ParseIP lib ipAddr in
         if ipDa = [] then Inl FailedToParseIPAddress
         else Inr (ipDa, ParseIP lib IP_BROADCAST_ADDR)))"

text \<open>An empty address string in the rule leaves the pointers of the match nil.\<close>

definition parseRuleIP :: "extlib \<Rightarrow> string \<Rightarrow> error + (IP option \<times> IP option)" where
  "parseRuleIP lib ipAddr =
     (if ipAddr = [] then Inr (None, None)
      else
        (case ParseIPAddrMaskString lib ipAddr of
           Inl err \<Rightarrow> Inl err
         | Inr (ip, ipMask) \<Rightarrow> Inr (Some ip, Some ipMask)))"

definition ruleFlowMatch ::
  "EveroutePolicyRule \<Rightarrow> IP option \<times> IP option \<Rightarrow> IP option \<times> IP option \<Rightarrow> FlowMatch" where
  "ruleFlowMatch rule da sa =
     \<lparr>MatchPriority = word_of_int (Priority rule),
      Ethertype = PROTOCOL_IP,
      IpDa = fst da, IpDaMask = snd da,
      IpSa = fst sa, IpSaMask = snd sa,
      IpProto = IPProtocol rule,
      TcpSrcPort = SrcPort rule, TcpSrcPortMask = SrcPortMask rule,
      TcpDstPort = DstPort rule, TcpDstPortMask = DstPortMask rule,
      UdpSrcPort = SrcPort rule, UdpSrcPortMask = SrcPortMask rule,
      UdpDstPort = DstPort rule, UdpDstPortMask = DstPortMask rule\<rparr>"

text \<open>
  The last part of \<open>AddMicroSegmentRule\<close>: the switch on the action, after
  \<open>NewFlow\<close> has made the flow.
\<close>

definition installRuleFlow ::
  "extlib \<Rightarrow> PolicyBridge \<Rightarrow> EveroutePolicyRule \<Rightarrow> 8 word option \<Rightarrow> 8 word option \<Rightarrow> Flow
     \<Rightarrow> OFSwitch \<Rightarrow> ((error + FlowEntry) \<times> PolicyBridge) outcome" where
  "installRuleFlow lib p rule policyTable nextTable ruleFlow sw =
     (if Action rule = ''allow'' \<or> Action rule = ''deny'' then
        (case Next lib ruleFlow
                (if Action rule = ''allow'' then map_option TableElem nextTable
                 else Some DropAction) sw of
           Crashed c \<Rightarrow> Crashed c
         | Returned (Some err, sw') \<Rightarrow> Returned (Inl err, p\<lparr>OfSwitch := sw'\<rparr>)
         | Returned (None, sw') \<Rightarrow>
             Returned (Inr \<lparr>Table = policyTable,
                            EntryPriority = MatchPriority (Match ruleFlow),
                            FlowID = FlowIDOf ruleFlow\<rparr>,
                       p\<lparr>OfSwitch := sw'\<rparr>))
      else Returned (Inl UnknownActionInRule, p\<lparr>OfSwitch := sw\<rparr>))"

definition AddMicroSegmentRule ::
  "extlib \<Rightarrow> PolicyBridge \<Rightarrow> EveroutePolicyRule \<Rightarrow> 8 word \<Rightarrow> 8 word
     \<Rightarrow> ((error + FlowEntry) \<times> PolicyBridge) outcome" where
  "AddMicroSegmentRule lib p rule direction tier =
     (if \<not> isPolicySwitchConnected p then Crashed FatalExit
      else
        (case GetTierTable p direction tier of
           Inl e \<Rightarrow> Returned (Inl FailedGetPolicyTable, p)
         | Inr (policyTable, nextTable) \<Rightarrow>
             (case parseRuleIP lib (DstIPAddr rule) of
                Inl err \<Rightarrow> Returned (Inl err, p)
              | Inr da \<Rightarrow>
                  (case parseRuleIP lib (SrcIPAddr rule) of
                     Inl err \<Rightarrow> Returned (Inl err, p)
                   | Inr sa \<Rightarrow>
                       (case NewFlow lib policyTable (ruleFlowMatch rule da sa) (OfSwitch p) of
                          Crashed c \<Rightarrow> Crashed c
                        | Returned (Inl err, sw) \<Rightarrow> Returned (Inl err, p\<lparr>OfSwitch := sw\<rparr>)
                        | Returned (Inr ruleFlow, sw) \<Rightarrow>
                            installRuleFlow lib p rule policyTable nextTable ruleFlow sw)))))"

subsection \<open>The datapath manager\<close>

text \<open>
  The manager reaches its bridges through the Go interface \<open>Bridge\<close>. The record
  \<open>'b Bridge\<close> holds the methods of the interface that the manager calls, over a type
  \<open>'b\<close> of bridge states, and the two accesses the manager makes to the switch of a
  bridge: the assignment of \<open>OfSwitch.CookieAllocator\<close> after a type assertion (by the
  keyword of the bridge) and \<open>ofctrl.DeleteFlow\<close> on the table of a flow entry. The
  implementation is a parameter of every operation of the manager: the LOCAL, CLS and
  UPLINK bridges are not among the sources.
\<close>

record 'b Bridge =
  BridgeInit :: "'b \<Rightarrow> 'b outcome"
  BridgeInitCNI :: "'b \<Rightarrow> 'b outcome"
  BridgeAddLocalEndpoint :: "Endpoint \<Rightarrow> 'b \<Rightarrow> (error option \<times> 'b) outcome"
  BridgeRemoveLocalEndpoint :: "Endpoint \<Rightarrow> 'b \<Rightarrow> (error option \<times> 'b) outcome"
  BridgeAddMicroSegmentRule ::
    "EveroutePolicyRule \<Rightarrow> 8 word \<Rightarrow> 8 word \<Rightarrow> 'b \<Rightarrow> ((error + FlowEntry) \<times> 'b) outcome"
  IsSwitchConnected :: "'b \<Rightarrow> bool"
  SetCookieAllocator :: "string \<Rightarrow> 64 word \<Rightarrow> 'b \<Rightarrow> 'b outcome"
  DeleteFlowOn :: "FlowEntry \<Rightarrow> 'b \<Rightarrow> (error option \<times> 'b) outcome"

text \<open>
  \<open>BridgeChainMap\<close> maps a VDS to the map from keyword to bridge; \<open>ManagedVDSMap\<close>
  is \<open>datapathConfig.ManagedVDSMap\<close>; \<open>localEndpointDB\<close> is the concurrent map of
  the endpoints. The endpoints and rules are stored by pointer in the source and by
  value here.
\<close>

record 'b DpManager =
  BridgeChainMap :: "(string \<times> (string \<times> 'b) list) list"
  ManagedVDSMap :: "(string \<times> string) list"
  localEndpointDB :: "(string \<times> Endpoint) list"
  Rules :: "(string \<times> EveroutePolicyRuleEntry) list"

text \<open>
  A method call on \<open>BridgeChainMap[vdsID][keyword]\<close>: a missing VDS or keyword gives
  the nil interface, and the call panics. The bridge is a pointer, so what the method
  does to it stays in the map.
\<close>

definition onBridge ::
  "string \<Rightarrow> string \<Rightarrow> ('b \<Rightarrow> ('r \<times> 'b) outcome) \<Rightarrow> 'b DpManager \<Rightarrow> ('r \<times> 'b DpManager) outcome" where
  "onBridge vdsID keyword method dm =
     (case map_of (BridgeChainMap dm) vdsID of
        None \<Rightarrow> Crashed NilDereference
      | Some chain \<Rightarrow>
          (case map_of chain keyword of
             None \<Rightarrow> Crashed NilDereference
           | Some b \<Rightarrow>
               (case method b of
                  Crashed c \<Rightarrow> Crashed c
                | Returned (r, b') \<Rightarrow>
                    Returned (r, dm\<lparr>BridgeChainMap :=
                      AList.update vdsID (AList.update keyword b' chain) (BridgeChainMap dm)\<rparr>))))"

fun chainConnected :: "'b Bridge \<Rightarrow> (string \<times> 'b) list \<Rightarrow> string list \<Rightarrow> bool outcome" where
  "chainConnected iface chain [] = Returned True"
| "chainConnected iface chain (keyword # keywords) =
     (case map_of chain keyword of
        None \<Rightarrow> Crashed NilDereference
      | Some b \<Rightarrow>
          if IsSwitchConnected iface b then chainConnected iface chain keywords
          else Returned False)"

fun IsBridgesConnected :: "'b Bridge \<Rightarrow> (string \<times> (string \<times> 'b) list) list \<Rightarrow> bool outcome" where
  "IsBridgesConnected iface [] = Returned True"
| "IsBridgesConnected iface ((vdsID, chain) # rest) =
     (case chainConnected iface chain
             [LOCAL_BRIDGE_KEYWORD, POLICY_BRIDGE_KEYWORD, CLS_BRIDGE_KEYWORD,
              UPLINK_BRIDGE_KEYWORD] of
        Crashed c \<Rightarrow> Crashed c
      | Returned connected \<Rightarrow>
          if connected then IsBridgesConnected iface rest else Returned False)"

text \<open>
  \<open>WaitForBridgeConnected\<close> polls \<open>IsBridgesConnected\<close> forty times, a second apart,
  and ends the process when no poll succeeds. In this sequential model the bridges do not
  change between the polls. \<open>None\<close> is the return of the wait.
\<close>

fun WaitForBridgeConnected :: "'b Bridge \<Rightarrow> 'b DpManager \<Rightarrow> nat \<Rightarrow> crash option" where
  "WaitForBridgeConnected iface dm 0 = Some FatalExit"
| "WaitForBridgeConnected iface dm (Suc polls) =
     (case IsBridgesConnected iface (BridgeChainMap dm) of
        Crashed c \<Rightarrow> Some c
      | Returned connected \<Rightarrow>
          if connected then None else WaitForBridgeConnected iface dm polls)"

text \<open>
  Every public operation begins with
  \<open>if !IsBridgesConnected() { WaitForBridgeConnected() }\<close>, under the lock
  \<open>flowReplayMutex\<close>, which makes the operations sequential.
\<close>

definition awaitBridges :: "'b Bridge \<Rightarrow> 'b DpManager \<Rightarrow> crash option" where
  "awaitBridges iface dm =
     (case IsBridgesConnected iface (BridgeChainMap dm) of
        Crashed c \<Rightarrow> Some c
      | Returned connected \<Rightarrow>
          if connected then None else WaitForBridgeConnected iface dm 40)"

definition wrapError :: "(error \<Rightarrow> error) \<Rightarrow> (error option \<times> 's) outcome \<Rightarrow> (error option \<times> 's) outcome" where
  "wrapError wrap result =
     (case result of
        Crashed c \<Rightarrow> Crashed c
      | Returned (err, s) \<Rightarrow> Returned (map_option wrap err, s))"

fun addLocalEndpointLoop ::
  "'b Bridge \<Rightarrow> Endpoint \<Rightarrow> (string \<times> string) list \<Rightarrow> 'b DpManager
     \<Rightarrow> (error option \<times> 'b DpManager) outcome" where
  "addLocalEndpointLoop iface endpoint [] dm = Returned (None, dm)"
| "addLocalEndpointLoop iface endpoint ((vdsID, ovsbrname) # rest) dm =
     (if ovsbrname = BridgeName endpoint then
        (case map_of (localEndpointDB dm) (InterfaceName endpoint) of
           Some ep \<Rightarrow> Returned (None, dm)
         | None \<Rightarrow>
             wrapError FailedToAddLocalEndpoint
               (onBridge vdsID LOCAL_BRIDGE_KEYWORD (BridgeAddLocalEndpoint iface endpoint)
                  (dm\<lparr>localEndpointDB :=
                        AList.update (InterfaceName endpoint) endpoint (localEndpointDB dm)\<rparr>)))
      else addLocalEndpointLoop iface endpoint rest dm)"

definition AddLocalEndpoint ::
  "'b Bridge \<Rightarrow> Endpoint \<Rightarrow> 'b DpManager \<Rightarrow> (error option \<times> 'b DpManager) outcome" where
  "AddLocalEndpoint iface endpoint dm =
     (case awaitBridges iface dm of
        Some c \<Rightarrow> Crashed c
      | None \<Rightarrow> addLocalEndpointLoop iface endpoint (ManagedVDSMap dm) dm)"

text \<open>
  The body of the loop of \<open>UpdateLocalEndpoint\<close> for the VDS whose bridge name is the
  new endpoint's: the learned address is copied, the old endpoint leaves the registry and
  the bridge, and only then the name of the new endpoint is looked up.
\<close>

definition updateOnVDS ::
  "'b Bridge \<Rightarrow> Endpoint \<Rightarrow> Endpoint \<Rightarrow> string \<Rightarrow> 'b DpManager
     \<Rightarrow> (error option \<times> 'b DpManager) outcome" where
  "updateOnVDS iface newEndpoint oldEndpoint vdsID dm =
     (case map_of (localEndpointDB dm) (InterfaceName oldEndpoint) of
        None \<Rightarrow> Returned (Some OldLocalEndpointNotFound, dm)
      | Some ep \<Rightarrow>
          (case onBridge vdsID LOCAL_BRIDGE_KEYWORD (BridgeRemoveLocalEndpoint iface oldEndpoint)
                  (dm\<lparr>localEndpointDB :=
                        AList.delete (InterfaceName oldEndpoint) (localEndpointDB dm)\<rparr>) of
             Crashed c \<Rightarrow> Crashed c
           | Returned (Some err, dm1) \<Rightarrow> Returned (Some (FailedToRemoveOldLocalEndpoint err), dm1)
           | Returned (None, dm1) \<Rightarrow>
               (case map_of (localEndpointDB dm1) (InterfaceName newEndpoint) of
                  Some newEP \<Rightarrow> Returned (Some NewLocalEndpointAlreadyExists, dm1)
                | None \<Rightarrow>
                    wrapError FailedToAddLocalEndpoint
                      (onBridge vdsID LOCAL_BRIDGE_KEYWORD
                         (BridgeAddLocalEndpoint iface (newEndpoint\<lparr>IPAddr := IPAddr ep\<rparr>))
                         (dm1\<lparr>localEndpointDB :=
                               AList.update (InterfaceName newEndpoint)
                                 (newEndpoint\<lparr>IPAddr := IPAddr ep\<rparr>)
                                 (localEndpointDB dm1)\<rparr>)))))"

fun updateLocalEndpointLoop ::
  "'b Bridge \<Rightarrow> Endpoint \<Rightarrow> Endpoint \<Rightarrow> (string \<times> string) list \<Rightarrow> 'b DpManager
     \<Rightarrow> (error option \<times> 'b DpManager) outcome" where
  "updateLocalEndpointLoop iface newEndpoint oldEndpoint [] dm = Returned (None, dm)"
| "updateLocalEndpointLoop iface newEndpoint oldEndpoint ((vdsID, ovsbrname) # rest) dm =
     (if ovsbrname = BridgeName newEndpoint
      then updateOnVDS iface newEndpoint oldEndpoint vdsID dm
      else updateLocalEndpointLoop iface newEndpoint oldEndpoint rest dm)"

definition UpdateLocalEndpoint ::
  "'b Bridge \<Rightarrow> Endpoint \<Rightarrow> Endpoint \<Rightarrow> 'b DpManager \<Rightarrow> (error option \<times> 'b DpManager) outcome" where
  "UpdateLocalEndpoint iface newEndpoint oldEndpoint dm =
     (case awaitBridges iface dm of
        Some c \<Rightarrow> Crashed c
      | None \<Rightarrow> updateLocalEndpointLoop iface newEndpoint oldEndpoint (ManagedVDSMap dm) dm)"

fun removeLocalEndpointLoop ::
  "'b Bridge \<Rightarrow> Endpoint \<Rightarrow> Endpoint \<Rightarrow> (string \<times> string) list \<Rightarrow> 'b DpManager
     \<Rightarrow> (error option \<times> 'b DpManager) outcome" where
  "removeLocalEndpointLoop iface endpoint cachedEP [] dm = Returned (None, dm)"
| "removeLocalEndpointLoop iface endpoint cachedEP ((vdsID, ovsbrname) # rest) dm =
     (if ovsbrname = BridgeName cachedEP then
        wrapError FailedToRemoveLocalEndpoint
          (onBridge vdsID LOCAL_BRIDGE_KEYWORD (BridgeRemoveLocalEndpoint iface endpoint)
             (dm\<lparr>localEndpointDB :=
                   AList.delete (InterfaceName endpoint) (localEndpointDB dm)\<rparr>))
      else removeLocalEndpointLoop iface endpoint cachedEP rest dm)"

definition RemoveLocalEndpoint ::
  "'b Bridge \<Rightarrow> Endpoint \<Rightarrow> 'b DpManager \<Rightarrow> (error option \<times> 'b DpManager) outcome" where
  "RemoveLocalEndpoint iface endpoint dm =
     (case awaitBridges iface dm of
        Some c \<Rightarrow> Crashed c
      | None \<Rightarrow>
          (case map_of (localEndpointDB dm) (InterfaceName endpoint) of
             None \<Rightarrow> Returned (Some EndpointNotFound, dm)
           | Some cachedEP \<Rightarrow>
               removeLocalEndpointLoop iface endpoint cachedEP (ManagedVDSMap dm) dm))"

text \<open>
  The loop of \<open>AddEveroutePolicyRule\<close> over the VDSes of \<open>BridgeChainMap\<close>, building
  \<open>ruleFlowMap\<close>; the first error ends it, the flows installed so far staying.
\<close>

fun installRuleLoop ::
  "'b Bridge \<Rightarrow> EveroutePolicyRule \<Rightarrow> 8 word \<Rightarrow> 8 word \<Rightarrow> string list
     \<Rightarrow> (string \<times> FlowEntry) list \<Rightarrow> 'b DpManager
     \<Rightarrow> ((error + (string \<times> FlowEntry) list) \<times> 'b DpManager) outcome" where
  "installRuleLoop iface rule direction tier [] ruleFlowMap dm = Returned (Inr ruleFlowMap, dm)"
| "installRuleLoop iface rule direction tier (vdsID # rest) ruleFlowMap dm =
     (case onBridge vdsID POLICY_BRIDGE_KEYWORD
             (BridgeAddMicroSegmentRule iface rule direction tier) dm of
        Crashed c \<Rightarrow> Crashed c
      | Returned (Inl err, dm') \<Rightarrow> Returned (Inl err, dm')
      | Returned (Inr flowEntry, dm') \<Rightarrow>
          installRuleLoop iface rule direction tier rest
            (AList.update vdsID flowEntry ruleFlowMap) dm')"

definition ruleAlreadyExists :: "'b DpManager \<Rightarrow> EveroutePolicyRule \<Rightarrow> bool" where
  "ruleAlreadyExists dm rule =
     (case map_of (Rules dm) (RuleID rule) of
        None \<Rightarrow> False
      | Some entry \<Rightarrow> RuleIsSame (EntryRule entry) rule)"

definition AddEveroutePolicyRule ::
  "'b Bridge \<Rightarrow> EveroutePolicyRule \<Rightarrow> 8 word \<Rightarrow> 8 word \<Rightarrow> 'b DpManager
     \<Rightarrow> (error option \<times> 'b DpManager) outcome" where
  "AddEveroutePolicyRule iface rule direction tier dm =
     (case awaitBridges iface dm of
        Some c \<Rightarrow> Crashed c
      | None \<Rightarrow>
          if ruleAlreadyExists dm rule then Returned (None, dm)
          else
            (case installRuleLoop iface rule direction tier (map fst (BridgeChainMap dm)) [] dm of
               Crashed c \<Rightarrow> Crashed c
             | Returned (Inl err, dm') \<Rightarrow> Returned (Some err, dm')
             | Returned (Inr ruleFlowMap, dm') \<Rightarrow>
                 Returned (None, dm'\<lparr>Rules :=
                   AList.update (RuleID rule)
                     \<lparr>EntryRule = rule, Direction = direction, Tier = tier,
                      RuleFlowMap = ruleFlowMap\<rparr> (Rules dm')\<rparr>)))"

text \<open>
  The loop of \<open>RemoveEveroutePolicyRule\<close>: the rule is looked up inside the loop, once
  for each VDS of \<open>BridgeChainMap\<close>. \<open>ofctrl.DeleteFlow\<close> works on the switch of the
  entry's table, which is the switch of the policy bridge of that VDS.
\<close>

fun removeRuleLoop ::
  "'b Bridge \<Rightarrow> EveroutePolicyRule \<Rightarrow> string list \<Rightarrow> 'b DpManager
     \<Rightarrow> (error option \<times> 'b DpManager) outcome" where
  "removeRuleLoop iface rule [] dm = Returned (None, dm)"
| "removeRuleLoop iface rule (vdsID # rest) dm =
     (case map_of (Rules dm) (RuleID rule) of
        None \<Rightarrow> Returned (Some RuleNotFound, dm)
      | Some pRule \<Rightarrow>
          (case map_of (RuleFlowMap pRule) vdsID of
             None \<Rightarrow> Crashed NilDereference
           | Some flowEntry \<Rightarrow>
               (case onBridge vdsID POLICY_BRIDGE_KEYWORD (DeleteFlowOn iface flowEntry) dm of
                  Crashed c \<Rightarrow> Crashed c
                | Returned (Some err, dm') \<Rightarrow> Returned (Some err, dm')
                | Returned (None, dm') \<Rightarrow> removeRuleLoop iface rule rest dm')))"

definition RemoveEveroutePolicyRule ::
  "'b Bridge \<Rightarrow> EveroutePolicyRule \<Rightarrow> 'b DpManager \<Rightarrow> (error option \<times> 'b DpManager) outcome" where
  "RemoveEveroutePolicyRule iface rule dm =
     (case awaitBridges iface dm of
        Some c \<Rightarrow> Crashed c
      | None \<Rightarrow>
          (case removeRuleLoop iface rule (map fst (BridgeChainMap dm)) dm of
             Crashed c \<Rightarrow> Crashed c
           | Returned (Some err, dm') \<Rightarrow> Returned (Some err, dm')
           | Returned (None, dm') \<Rightarrow>
               Returned (None, dm'\<lparr>Rules := AList.delete (RuleID rule) (Rules dm')\<rparr>)))"

text \<open>
  The loop of \<open>ReplayVDSLocalEndpointFlow\<close> over the endpoints of the registry: an
  endpoint of another bridge is skipped (\<open>continue\<close>); after the first endpoint of this
  bridge has been added the loop ends (\<open>break\<close>).
\<close>

fun replayEndpointLoop ::
  "'b Bridge \<Rightarrow> string \<Rightarrow> string \<Rightarrow> (string \<times> Endpoint) list \<Rightarrow> 'b DpManager
     \<Rightarrow> (error option \<times> 'b DpManager) outcome" where
  "replayEndpointLoop iface vdsID ovsbrname [] dm = Returned (None, dm)"
| "replayEndpointLoop iface vdsID ovsbrname ((ifaceName, endpoint) # rest) dm =
     (if ovsbrname = BridgeName endpoint then
        wrapError FailedToAddLocalEndpoint
          (onBridge vdsID LOCAL_BRIDGE_KEYWORD (BridgeAddLocalEndpoint iface endpoint) dm)
      else replayEndpointLoop iface vdsID ovsbrname rest dm)"

definition ReplayVDSLocalEndpointFlow ::
  "'b Bridge \<Rightarrow> string \<Rightarrow> 'b DpManager \<Rightarrow> (error option \<times> 'b DpManager) outcome" where
  "ReplayVDSLocalEndpointFlow iface vdsID dm =
     replayEndpointLoop iface vdsID
       (case map_of (ManagedVDSMap dm) vdsID of None \<Rightarrow> [] | Some ovsbrname \<Rightarrow> ovsbrname)
       (localEndpointDB dm) dm"

definition setRuleFlow :: "string \<Rightarrow> FlowEntry \<Rightarrow> EveroutePolicyRuleEntry \<Rightarrow> EveroutePolicyRuleEntry" where
  "setRuleFlow vdsID flowEntry entry =
     entry\<lparr>RuleFlowMap := AList.update vdsID flowEntry (RuleFlowMap entry)\<rparr>"

fun replayRuleLoop ::
  "'b Bridge \<Rightarrow> string \<Rightarrow> (string \<times> EveroutePolicyRuleEntry) list \<Rightarrow> 'b DpManager
     \<Rightarrow> (error option \<times> 'b DpManager) outcome" where
  "replayRuleLoop iface vdsID [] dm = Returned (None, dm)"
| "replayRuleLoop iface vdsID ((ruleID, entry) # rest) dm =
     (case onBridge vdsID POLICY_BRIDGE_KEYWORD
             (BridgeAddMicroSegmentRule iface (EntryRule entry) (Direction entry) (Tier entry))
             dm of
        Crashed c \<Rightarrow> Crashed c
      | Returned (Inl err, dm') \<Rightarrow> Returned (Some (FailedToAddMicroSegmentRule err), dm')
      | Returned (Inr flowEntry, dm') \<Rightarrow>
          replayRuleLoop iface vdsID rest
            (dm'\<lparr>Rules := AList.map_entry ruleID (setRuleFlow vdsID flowEntry) (Rules dm')\<rparr>))"

definition ReplayVDSMicroSegmentFlow ::
  "'b Bridge \<Rightarrow> string \<Rightarrow> 'b DpManager \<Rightarrow> (error option \<times> 'b DpManager) outcome" where
  "ReplayVDSMicroSegmentFlow iface vdsID dm = replayRuleLoop iface vdsID (Rules dm) dm"

text \<open>
  \<open>replayVDSFlow\<close>: the round is read again (the answer of \<open>GetExternalIds\<close> is an
  argument), the bridge named by the keyword gets the new cookie allocator and is
  initialised again, then the endpoints (LOCAL) or the rules (POLICY) are replayed.
\<close>

definition reinitBridge :: "'b Bridge \<Rightarrow> string \<Rightarrow> 64 word \<Rightarrow> 'b \<Rightarrow> (unit \<times> 'b) outcome" where
  "reinitBridge iface keyword round b =
     (case (if keyword \<in> set [LOCAL_BRIDGE_KEYWORD, POLICY_BRIDGE_KEYWORD, CLS_BRIDGE_KEYWORD,
                               UPLINK_BRIDGE_KEYWORD]
            then SetCookieAllocator iface keyword round b else Returned b) of
        Crashed c \<Rightarrow> Crashed c
      | Returned b1 \<Rightarrow>
          (case BridgeInit iface b1 of
             Crashed c \<Rightarrow> Crashed c
           | Returned b2 \<Rightarrow>
               (case BridgeInitCNI iface b2 of
                  Crashed c \<Rightarrow> Crashed c
                | Returned b3 \<Rightarrow> Returned ((), b3))))"

definition replayVDSFlow ::
  "'b Bridge \<Rightarrow> error + (string \<times> string) list \<Rightarrow> string \<Rightarrow> string \<Rightarrow> 'b DpManager
     \<Rightarrow> (error option \<times> 'b DpManager) outcome" where
  "replayVDSFlow iface driverAnswer vdsID bridgeKeyword dm =
     (case awaitBridges iface dm of
        Some c \<Rightarrow> Crashed c
      | None \<Rightarrow>
          (case getRoundInfo driverAnswer of
             Inl err \<Rightarrow> Returned (Some (FailedToGetRoundInfo err), dm)
           | Inr roundInfo \<Rightarrow>
               (case onBridge vdsID bridgeKeyword
                       (reinitBridge iface bridgeKeyword (curRoundNum roundInfo)) dm of
                  Crashed c \<Rightarrow> Crashed c
                | Returned (u, dm1) \<Rightarrow>
                    if bridgeKeyword = LOCAL_BRIDGE_KEYWORD then
                      wrapError FailedToReplayLocalEndpointFlow
                        (ReplayVDSLocalEndpointFlow iface vdsID dm1)
                    else if bridgeKeyword = POLICY_BRIDGE_KEYWORD then
                      wrapError FailedToReplayMicroSegmentFlow
                        (ReplayVDSMicroSegmentFlow iface vdsID dm1)
                    else Returned (None, dm1))))"

subsection \<open>The tier tables as the specification gives them\<close>

text \<open>
  \<open>BridgeInit\<close> stores in each table field the table \<open>sw.NewTable\<close> makes for the
  field's constant (\<open>sw.DefaultTable()\<close> for the input table); an initialised bridge
  is one whose fields hold these tables.
\<close>

definition tablesInitialised :: "PolicyBridge \<Rightarrow> bool" where
  "tablesInitialised p =
     (inputTable p = Some INPUT_TABLE \<and>
      ctStateTable p = Some CT_STATE_TABLE \<and>
      directionSelectionTable p = Some DIRECTION_SELECTION_TABLE \<and>
      ingressTier0PolicyTable p = Some INGRESS_TIER0_TABLE \<and>
      ingressTier1PolicyTable p = Some INGRESS_TIER1_TABLE \<and>
      ingressTier2PolicyTable p = Some INGRESS_TIER2_TABLE \<and>
      egressTier0PolicyTable p = Some EGRESS_TIER0_TABLE \<and>
      egressTier1PolicyTable p = Some EGRESS_TIER1_TABLE \<and>
      egressTier2PolicyTable p = Some EGRESS_TIER2_TABLE \<and>
      ctCommitTable p = Some CT_COMMIT_TABLE \<and>
      sfcPolicyTable p = Some SFC_POLICY_TABLE \<and>
      policyForwardingTable p = Some POLICY_FORWARDING_TABLE)"

text \<open>
  The specification's table of the tier chain: egress tiers are tables 20, 25, 30,
  ingress tiers 50, 55, 60; an allowing match of tier 0 goes to the tier-1 table of the
  same direction, one of tier 1 or 2 to CT_COMMIT (70).
\<close>

definition specPolicyTable :: "8 word \<Rightarrow> 8 word \<Rightarrow> 8 word" where
  "specPolicyTable direction tier =
     (if direction = POLICY_DIRECTION_OUT then
        (if tier = POLICY_TIER0 then 20 else if tier = POLICY_TIER1 then 25 else 30)
      else
        (if tier = POLICY_TIER0 then 50 else if tier = POLICY_TIER1 then 55 else 60))"

definition specNextTable :: "8 word \<Rightarrow> 8 word \<Rightarrow> 8 word" where
  "specNextTable direction tier =
     (if tier = POLICY_TIER0 then (if direction = POLICY_DIRECTION_OUT then 25 else 55)
      else 70)"

definition specTarget :: "EveroutePolicyRule \<Rightarrow> 8 word \<Rightarrow> 8 word \<Rightarrow> Elem" where
  "specTarget rule direction tier =
     (if Action rule = ''allow'' then TableElem (specNextTable direction tier) else DropAction)"

text \<open>The flow \<open>NewFlow\<close> makes for a rule on a switch, and the switch holding it.\<close>

definition madeFlow ::
  "PolicyBridge \<Rightarrow> EveroutePolicyRule \<Rightarrow> 8 word \<Rightarrow> 8 word
     \<Rightarrow> IP option \<times> IP option \<Rightarrow> IP option \<times> IP option \<Rightarrow> Flow" where
  "madeFlow p rule direction tier da sa =
     \<lparr>FlowTable = specPolicyTable direction tier, Match = ruleFlowMatch rule da sa,
      FlowIDOf = globalFlowID (OfSwitch p), NextElem = None\<rparr>"

definition switchWith :: "PolicyBridge \<Rightarrow> Flow \<Rightarrow> OFSwitch" where
  "switchWith p flow =
     (OfSwitch p)\<lparr>flowDb := flowDb (OfSwitch p) @ [flow],
                  globalFlowID := globalFlowID (OfSwitch p) + 1\<rparr>"

subsection \<open>An instance of the libraries for the examples\<close>

text \<open>
  The IPv4 part of Go's \<open>net\<close> package: \<open>ParseIP\<close> reads a dotted quad of decimal
  octets without leading zeros into the 16-byte form, \<open>ParseCIDR\<close> an address and a
  prefix length of at most 32 bits, \<open>IP.Mask\<close> applies a mask bytewise. The client of
  the instance refuses nothing. The theorems do not depend on the instance; the examples
  are evaluated with it.
\<close>

unbundle bit_operations_syntax

fun splitOn :: "char \<Rightarrow> string \<Rightarrow> string list" where
  "splitOn c [] = [[]]"
| "splitOn c (x # xs) =
     (if x = c then [] # splitOn c xs
      else (case splitOn c xs of [] \<Rightarrow> [[x]] | y # ys \<Rightarrow> (x # y) # ys))"

definition parseOctet :: "string \<Rightarrow> (8 word) option" where
  "parseOctet s =
     (if s = [] then None
      else if 3 < length s then None
      else if list_all isDecimalDigit s then
        (if 1 < length s \<and> hd s = CHR ''0'' then None
         else if 255 < decimalValue s then None
         else Some (of_nat (decimalValue s)))
      else None)"

definition v4InV6Prefix :: IP where
  "v4InV6Prefix = [0, 0, 0, 0, 0, 0, 0, 0, 0, 0, 255, 255]"

definition ipv4ParseIP :: "string \<Rightarrow> IP" where
  "ipv4ParseIP s =
     (let parts = map parseOctet (splitOn (CHR ''.'') s)
      in if length parts = 4 \<and> list_all (\<lambda>part. part \<noteq> None) parts
         then v4InV6Prefix @ map the parts else [])"

definition cidrMask :: "nat \<Rightarrow> IP" where
  "cidrMask n =
     map (\<lambda>i. of_nat (if 8 * (i + 1) \<le> n then 255
                       else if n \<le> 8 * i then 0
                       else 256 - 2 ^ (8 * (i + 1) - n)))
       [0, 1, 2, 3]"

definition ipv4ParseCIDR :: "string \<Rightarrow> (IP \<times> IP) option" where
  "ipv4ParseCIDR s =
     (case splitOn (CHR ''/'') s of
        [addr, bits] \<Rightarrow>
          if ipv4ParseIP addr = [] then None
          else if bits = [] then None
          else if list_all isDecimalDigit bits \<and> decimalValue bits \<le> 32
          then Some (ipv4ParseIP addr, cidrMask (decimalValue bits))
          else None
      | _ \<Rightarrow> None)"

definition ipMaskBytes :: "IP \<Rightarrow> IP \<Rightarrow> IP" where
  "ipMaskBytes ip m =
     (let m1 = (if length m = 16 \<and> length ip = 4 \<and> list_all (\<lambda>b. b = 255) (take 12 m)
                then drop 12 m else m);
          ip1 = (if length m1 = 4 \<and> length ip = 16 \<and> take 12 ip = v4InV6Prefix
                 then drop 12 ip else ip)
      in if length ip1 = length m1 then map2 (\<lambda>a b. a AND b) ip1 m1 else [])"

definition exampleLib :: extlib where
  "exampleLib =
     \<lparr>ParseIP = ipv4ParseIP, ParseCIDR = ipv4ParseCIDR, MaskIP = ipMaskBytes,
      NewFlowRefused = (\<lambda>t m sw. False), NextRefused = (\<lambda>f e sw. False),
      DeleteFlowRefused = (\<lambda>t prio fid sw. False)\<rparr>"

definition emptySwitch :: OFSwitch where
  "emptySwitch = \<lparr>flowDb = [], globalFlowID = 1, CookieAllocator = 1\<rparr>"

definition examplePolicyBridge :: PolicyBridge where
  "examplePolicyBridge =
     \<lparr>name = ''br0-policy'', OfSwitch = emptySwitch,
      inputTable = Some 0, ctStateTable = Some 1, directionSelectionTable = Some 10,
      egressTier0PolicyTable = Some 20, egressTier1PolicyTable = Some 25,
      egressTier2PolicyTable = Some 30, ingressTier0PolicyTable = Some 50,
      ingressTier1PolicyTable = Some 55, ingressTier2PolicyTable = Some 60,
      ctCommitTable = Some 70, sfcPolicyTable = Some 80, policyForwardingTable = Some 90,
      isPolicySwitchConnected = True\<rparr>"

text \<open>The rule \<open>R1\<close> of the specification's scenario 3.\<close>

definition ruleR1 :: EveroutePolicyRule where
  "ruleR1 =
     \<lparr>RuleID = ''R1'', Priority = 80, SrcIPAddr = ''10.0.0.0/24'', DstIPAddr = ''10.0.1.5'',
      IPProtocol = 6, SrcPort = 0, SrcPortMask = 0, DstPort = 80, DstPortMask = 0xffff,
      Action = ''allow''\<rparr>"

subsection \<open>An instance of the bridges for the examples\<close>

text \<open>
  The policy bridge of the instance is the one modelled above; of its \<open>BridgeInit\<close>
  the instance keeps the assignment of the twelve tables and leaves out the flows of the
  static pipeline. Its \<open>AddLocalEndpoint\<close>, \<open>RemoveLocalEndpoint\<close> and
  \<open>BridgeInitCNI\<close> do nothing. The LOCAL, CLS and UPLINK bridges are not among the
  sources: in their place stands a bridge that records the calls it receives, in order,
  and answers nil. The theorems do not depend on the instance; the examples are evaluated
  with it.
\<close>

datatype BridgeCall =
    BridgeInitCall
  | BridgeInitCNICall
  | AddLocalEndpointCall Endpoint
  | RemoveLocalEndpointCall Endpoint
  | AddMicroSegmentRuleCall EveroutePolicyRule "8 word" "8 word"
  | SetCookieAllocatorCall "64 word"
  | DeleteFlowCall FlowEntry

record RecordingBridge =
  bridgeKind :: string
  isRecordingSwitchConnected :: bool
  calls :: "BridgeCall list"

datatype bridge = PolicyBridgeOf PolicyBridge | RecordingBridgeOf RecordingBridge

definition recordCall :: "BridgeCall \<Rightarrow> RecordingBridge \<Rightarrow> bridge" where
  "recordCall c r = RecordingBridgeOf (r\<lparr>calls := calls r @ [c]\<rparr>)"

definition PolicyBridgeInit :: "PolicyBridge \<Rightarrow> PolicyBridge" where
  "PolicyBridgeInit p =
     p\<lparr>inputTable := Some INPUT_TABLE,
       ctStateTable := Some CT_STATE_TABLE,
       directionSelectionTable := Some DIRECTION_SELECTION_TABLE,
       ingressTier0PolicyTable := Some INGRESS_TIER0_TABLE,
       ingressTier1PolicyTable := Some INGRESS_TIER1_TABLE,
       ingressTier2PolicyTable := Some INGRESS_TIER2_TABLE,
       egressTier0PolicyTable := Some EGRESS_TIER0_TABLE,
       egressTier1PolicyTable := Some EGRESS_TIER1_TABLE,
       egressTier2PolicyTable := Some EGRESS_TIER2_TABLE,
       ctCommitTable := Some CT_COMMIT_TABLE,
       sfcPolicyTable := Some SFC_POLICY_TABLE,
       policyForwardingTable := Some POLICY_FORWARDING_TABLE\<rparr>"

fun exampleBridgeInit :: "bridge \<Rightarrow> bridge outcome" where
  "exampleBridgeInit (PolicyBridgeOf p) = Returned (PolicyBridgeOf (PolicyBridgeInit p))"
| "exampleBridgeInit (RecordingBridgeOf r) = Returned (recordCall BridgeInitCall r)"

fun exampleBridgeInitCNI :: "bridge \<Rightarrow> bridge outcome" where
  "exampleBridgeInitCNI (PolicyBridgeOf p) = Returned (PolicyBridgeOf p)"
| "exampleBridgeInitCNI (RecordingBridgeOf r) = Returned (recordCall BridgeInitCNICall r)"

fun exampleAddLocalEndpoint :: "Endpoint \<Rightarrow> bridge \<Rightarrow> (error option \<times> bridge) outcome" where
  "exampleAddLocalEndpoint endpoint (PolicyBridgeOf p) = Returned (None, PolicyBridgeOf p)"
| "exampleAddLocalEndpoint endpoint (RecordingBridgeOf r) =
     Returned (None, recordCall (AddLocalEndpointCall endpoint) r)"

fun exampleRemoveLocalEndpoint :: "Endpoint \<Rightarrow> bridge \<Rightarrow> (error option \<times> bridge) outcome" where
  "exampleRemoveLocalEndpoint endpoint (PolicyBridgeOf p) = Returned (None, PolicyBridgeOf p)"
| "exampleRemoveLocalEndpoint endpoint (RecordingBridgeOf r) =
     Returned (None, recordCall (RemoveLocalEndpointCall endpoint) r)"

definition liftPolicy :: "('r \<times> PolicyBridge) outcome \<Rightarrow> ('r \<times> bridge) outcome" where
  "liftPolicy result =
     (case result of
        Crashed c \<Rightarrow> Crashed c
      | Returned (r, p) \<Rightarrow> Returned (r, PolicyBridgeOf p))"

fun exampleAddMicroSegmentRule ::
  "extlib \<Rightarrow> EveroutePolicyRule \<Rightarrow> 8 word \<Rightarrow> 8 word \<Rightarrow> bridge
     \<Rightarrow> ((error + FlowEntry) \<times> bridge) outcome" where
  "exampleAddMicroSegmentRule lib rule direction tier (PolicyBridgeOf p) =
     liftPolicy (AddMicroSegmentRule lib p rule direction tier)"
| "exampleAddMicroSegmentRule lib rule direction tier (RecordingBridgeOf r) =
     Returned (Inl (LibraryError ''not a policy bridge''),
               recordCall (AddMicroSegmentRuleCall rule direction tier) r)"

fun exampleIsSwitchConnected :: "bridge \<Rightarrow> bool" where
  "exampleIsSwitchConnected (PolicyBridgeOf p) = isPolicySwitchConnected p"
| "exampleIsSwitchConnected (RecordingBridgeOf r) = isRecordingSwitchConnected r"

text \<open>
  The assignment of the cookie allocator follows a type assertion, which panics on a
  bridge of another type than the keyword's.
\<close>

fun exampleSetCookieAllocator :: "string \<Rightarrow> 64 word \<Rightarrow> bridge \<Rightarrow> bridge outcome" where
  "exampleSetCookieAllocator keyword round (PolicyBridgeOf p) =
     (if keyword = POLICY_BRIDGE_KEYWORD
      then Returned (PolicyBridgeOf (p\<lparr>OfSwitch := (OfSwitch p)\<lparr>CookieAllocator := round\<rparr>\<rparr>))
      else Crashed TypeAssertionPanic)"
| "exampleSetCookieAllocator keyword round (RecordingBridgeOf r) =
     (if keyword = bridgeKind r then Returned (recordCall (SetCookieAllocatorCall round) r)
      else Crashed TypeAssertionPanic)"

fun exampleDeleteFlowOn :: "extlib \<Rightarrow> FlowEntry \<Rightarrow> bridge \<Rightarrow> (error option \<times> bridge) outcome" where
  "exampleDeleteFlowOn lib flowEntry (PolicyBridgeOf p) =
     (case DeleteFlow lib (Table flowEntry) (EntryPriority flowEntry) (FlowID flowEntry)
             (OfSwitch p) of
        Crashed c \<Rightarrow> Crashed c
      | Returned (err, sw) \<Rightarrow> Returned (err, PolicyBridgeOf (p\<lparr>OfSwitch := sw\<rparr>)))"
| "exampleDeleteFlowOn lib flowEntry (RecordingBridgeOf r) =
     Returned (None, recordCall (DeleteFlowCall flowEntry) r)"

definition exampleBridges :: "bridge Bridge" where
  "exampleBridges =
     \<lparr>BridgeInit = exampleBridgeInit,
      BridgeInitCNI = exampleBridgeInitCNI,
      BridgeAddLocalEndpoint = exampleAddLocalEndpoint,
      BridgeRemoveLocalEndpoint = exampleRemoveLocalEndpoint,
      BridgeAddMicroSegmentRule = exampleAddMicroSegmentRule exampleLib,
      IsSwitchConnected = exampleIsSwitchConnected,
      SetCookieAllocator = exampleSetCookieAllocator,
      DeleteFlowOn = exampleDeleteFlowOn exampleLib\<rparr>"

definition recordingBridge :: "string \<Rightarrow> bridge" where
  "recordingBridge keyword =
     RecordingBridgeOf \<lparr>bridgeKind = keyword, isRecordingSwitchConnected = True, calls = []\<rparr>"

definition exampleChain :: "(string \<times> bridge) list" where
  "exampleChain =
     [(LOCAL_BRIDGE_KEYWORD, recordingBridge LOCAL_BRIDGE_KEYWORD),
      (POLICY_BRIDGE_KEYWORD, PolicyBridgeOf examplePolicyBridge),
      (CLS_BRIDGE_KEYWORD, recordingBridge CLS_BRIDGE_KEYWORD),
      (UPLINK_BRIDGE_KEYWORD, recordingBridge UPLINK_BRIDGE_KEYWORD)]"

text \<open>
  A manager of one VDS \<open>vds0\<close> with the bridge \<open>br0\<close>, and two endpoints of that
  bridge.
\<close>

definition exampleManager :: "bridge DpManager" where
  "exampleManager =
     \<lparr>BridgeChainMap = [(''vds0'', exampleChain)],
      ManagedVDSMap = [(''vds0'', ''br0'')],
      localEndpointDB = [],
      Rules = []\<rparr>"

definition endpointA :: Endpoint where
  "endpointA =
     \<lparr>InterfaceName = ''veth0'', IPAddr = [10, 0, 0, 5], IPv6Addr = [], PortNo = 10,
      MacAddrStr = ''00:00:00:00:00:0a'', VlanID = 0, BridgeName = ''br0''\<rparr>"

definition endpointB :: Endpoint where
  "endpointB =
     \<lparr>InterfaceName = ''veth1'', IPAddr = [], IPv6Addr = [], PortNo = 11,
      MacAddrStr = ''00:00:00:00:00:0b'', VlanID = 0, BridgeName = ''br0''\<rparr>"

text \<open>The manager before any VDS is configured.\<close>

definition emptyManager :: "bridge DpManager" where
  "emptyManager = \<lparr>BridgeChainMap = [], ManagedVDSMap = [], localEndpointDB = [], Rules = []\<rparr>"

section \<open>Round information: properties\<close>

lemma ParseUint_value:
  "ParseUint s = Some n \<Longrightarrow> unat n = decimalValue s"
  by (auto simp: ParseUint_def unat_of_nat split: if_splits)

text \<open>
  Claim C7. \<open>getRoundInfo\<close> returns a round information whose current round is the
  previous round plus one (in 64-bit arithmetic): with \<open>datapathRestartRound\<close> stored
  as the decimal \<open>n\<close> it returns previous \<open>n\<close> and current \<open>n + 1\<close>; with empty
  external-ids, or without the key, the current round is 1; with a stored value that
  \<open>ParseUint\<close> rejects it returns an error.
\<close>

theorem getRoundInfo_rounds:
  "(getRoundInfo answer = Inr r \<longrightarrow> curRoundNum r = previousRoundNum r + 1) \<and>
   (map_of ids datapathRestartRound = Some v \<and> ParseUint v = Some n \<longrightarrow>
      unat n = decimalValue v \<and>
      getRoundInfo (Inr ids) = Inr \<lparr>previousRoundNum = n, curRoundNum = n + 1\<rparr>) \<and>
   (ids = [] \<or> map_of ids datapathRestartRound = None \<longrightarrow>
      getRoundInfo (Inr ids) = Inr \<lparr>previousRoundNum = 0, curRoundNum = 1\<rparr>) \<and>
   (map_of ids datapathRestartRound = Some v \<and> ParseUint v = None \<longrightarrow>
      getRoundInfo (Inr ids) = Inl (BadRoundNumber v))"
proof (intro conjI impI)
  assume "getRoundInfo answer = Inr r"
  then show "curRoundNum r = previousRoundNum r + 1"
    by (auto simp: getRoundInfo_def split: sum.splits if_splits option.splits)
next
  assume h: "map_of ids datapathRestartRound = Some v \<and> ParseUint v = Some n"
  then have "ids \<noteq> []" by auto
  with h show "getRoundInfo (Inr ids) = Inr \<lparr>previousRoundNum = n, curRoundNum = n + 1\<rparr>"
    by (simp add: getRoundInfo_def)
  from h show "unat n = decimalValue v"
    by (simp add: ParseUint_value)
next
  assume "ids = [] \<or> map_of ids datapathRestartRound = None"
  then show "getRoundInfo (Inr ids) = Inr \<lparr>previousRoundNum = 0, curRoundNum = 1\<rparr>"
    by (auto simp: getRoundInfo_def)
next
  assume h: "map_of ids datapathRestartRound = Some v \<and> ParseUint v = None"
  then have "ids \<noteq> []" by auto
  with h show "getRoundInfo (Inr ids) = Inl (BadRoundNumber v)"
    by (simp add: getRoundInfo_def)
qed

theorem getRoundInfo_rounds_witness:
  "getRoundInfo (Inr [(''datapathRestartRound'', ''41'')])
     = Inr \<lparr>previousRoundNum = 41, curRoundNum = 42\<rparr> \<and>
   getRoundInfo (Inr [(''other'', ''x'')]) = Inr \<lparr>previousRoundNum = 0, curRoundNum = 1\<rparr> \<and>
   getRoundInfo (Inr [(''datapathRestartRound'', ''4x'')]) = Inl (BadRoundNumber ''4x'')"
proof -
  have p41: "ParseUint ''41'' = Some 41"
    by (simp add: ParseUint_def isDecimalDigit_def decimalValue_def)
  have p4x: "ParseUint ''4x'' = None"
    by (simp add: ParseUint_def isDecimalDigit_def)
  have a: "map_of [(''datapathRestartRound'', ''41'')] datapathRestartRound = Some ''41''"
    by (simp add: datapathRestartRound_def)
  have b: "map_of [(''other'', ''x'')] datapathRestartRound = None"
    by (simp add: datapathRestartRound_def)
  have c: "map_of [(''datapathRestartRound'', ''4x'')] datapathRestartRound = Some ''4x''"
    by (simp add: datapathRestartRound_def)
  show ?thesis
    using getRoundInfo_rounds [of "Inr []" "\<lparr>previousRoundNum = 0, curRoundNum = 1\<rparr>"
            "[(''datapathRestartRound'', ''41'')]" "''41''" 41]
          getRoundInfo_rounds [of "Inr []" "\<lparr>previousRoundNum = 0, curRoundNum = 1\<rparr>"
            "[(''other'', ''x'')]" "''x''" 0]
          getRoundInfo_rounds [of "Inr []" "\<lparr>previousRoundNum = 0, curRoundNum = 1\<rparr>"
            "[(''datapathRestartRound'', ''4x'')]" "''4x''" 0]
          p41 p4x a b c
    by simp
qed

section \<open>The policy bridge: properties\<close>

lemmas tier_consts = POLICY_TIER0_def POLICY_TIER1_def POLICY_TIER2_def
  POLICY_DIRECTION_OUT_def POLICY_DIRECTION_IN_def
lemmas table_consts = INPUT_TABLE_def CT_STATE_TABLE_def DIRECTION_SELECTION_TABLE_def
  EGRESS_TIER0_TABLE_def EGRESS_TIER1_TABLE_def EGRESS_TIER2_TABLE_def
  INGRESS_TIER0_TABLE_def INGRESS_TIER1_TABLE_def INGRESS_TIER2_TABLE_def
  CT_COMMIT_TABLE_def SFC_POLICY_TABLE_def POLICY_FORWARDING_TABLE_def

lemma GetTierTable_initialised:
  assumes "tablesInitialised p"
    and "direction = POLICY_DIRECTION_OUT \<or> direction = POLICY_DIRECTION_IN"
    and "tier = POLICY_TIER0 \<or> tier = POLICY_TIER1 \<or> tier = POLICY_TIER2"
  shows "GetTierTable p direction tier =
           Inr (Some (specPolicyTable direction tier), Some (specNextTable direction tier))"
  using assms
  by (auto simp: GetTierTable_def tablesInitialised_def specPolicyTable_def specNextTable_def
        tier_consts table_consts)

lemma installed_after_Next:
  "NextElem flow = None \<Longrightarrow>
   flow\<lparr>NextElem := Some e\<rparr> \<in> set (filter (\<lambda>f. NextElem f \<noteq> None)
      (map (setNext (FlowIDOf flow) e) (fs @ [flow])))"
  by (simp add: setNext_def)

text \<open>
  Claim C2. On a connected, initialised policy bridge, for a rule whose addresses parse,
  whose action is allow or deny and whose priority is in 1..100, with direction egress or
  ingress and tier 0, 1 or 2 (\<open>POLICY_TIER0\<close>, \<open>POLICY_TIER1\<close>, \<open>POLICY_TIER2\<close>), and
  a client that accepts the two calls: \<open>AddMicroSegmentRule\<close> installs a flow in the tier
  table of that direction with the rule's priority; its target is the next table (tier 0:
  the tier-1 table of the direction; tiers 1 and 2: table 70) for allow and the drop
  action for deny; the returned entry holds that table, the priority and the flow id.
\<close>

theorem AddMicroSegmentRule_installs:
  assumes conn: "isPolicySwitchConnected p"
    and init: "tablesInitialised p"
    and dir: "direction = POLICY_DIRECTION_OUT \<or> direction = POLICY_DIRECTION_IN"
    and tier: "tier = POLICY_TIER0 \<or> tier = POLICY_TIER1 \<or> tier = POLICY_TIER2"
    and prio: "1 \<le> Priority rule \<and> Priority rule \<le> 100"
    and da: "parseRuleIP lib (DstIPAddr rule) = Inr da"
    and sa: "parseRuleIP lib (SrcIPAddr rule) = Inr sa"
    and act: "Action rule = ''allow'' \<or> Action rule = ''deny''"
    and acc1: "\<not> NewFlowRefused lib (specPolicyTable direction tier) (ruleFlowMatch rule da sa)
                 (OfSwitch p)"
    and acc2: "\<not> NextRefused lib (madeFlow p rule direction tier da sa)
                 (specTarget rule direction tier)
                 (switchWith p (madeFlow p rule direction tier da sa))"
  shows "\<exists>p'. AddMicroSegmentRule lib p rule direction tier =
            Returned (Inr \<lparr>Table = Some (specPolicyTable direction tier),
                           EntryPriority = word_of_int (Priority rule),
                           FlowID = globalFlowID (OfSwitch p)\<rparr>, p') \<and>
          uint (word_of_int (Priority rule) :: 16 word) = Priority rule \<and>
          (madeFlow p rule direction tier da sa)\<lparr>NextElem := Some (specTarget rule direction tier)\<rparr>
            \<in> set (installedFlows (OfSwitch p')) \<and>
          MatchPriority (Match (madeFlow p rule direction tier da sa)) = word_of_int (Priority rule)"
proof -
  let ?flow = "madeFlow p rule direction tier da sa"
  let ?tgt = "specTarget rule direction tier"
  let ?sw2 = "(switchWith p ?flow)\<lparr>flowDb := map (setNext (FlowIDOf ?flow) ?tgt) (flowDb (switchWith p ?flow))\<rparr>"
  have tt: "GetTierTable p direction tier =
           Inr (Some (specPolicyTable direction tier), Some (specNextTable direction tier))"
    using init dir tier by (rule GetTierTable_initialised)
  have nf: "NewFlow lib (Some (specPolicyTable direction tier)) (ruleFlowMatch rule da sa) (OfSwitch p)
              = Returned (Inr ?flow, switchWith p ?flow)"
    using acc1 by (simp add: NewFlow_def madeFlow_def switchWith_def Let_def)
  have nx: "Next lib ?flow (Some ?tgt) (switchWith p ?flow) = Returned (None, ?sw2)"
    using acc2 by (simp add: Next_def)
  have el: "(if Action rule = ''allow'' then map_option TableElem (Some (specNextTable direction tier))
             else Some DropAction) = Some ?tgt"
    by (simp add: specTarget_def)
  have inst: "installRuleFlow lib p rule (Some (specPolicyTable direction tier))
                (Some (specNextTable direction tier)) ?flow (switchWith p ?flow)
              = Returned (Inr \<lparr>Table = Some (specPolicyTable direction tier),
                           EntryPriority = MatchPriority (Match ?flow),
                           FlowID = FlowIDOf ?flow\<rparr>, p\<lparr>OfSwitch := ?sw2\<rparr>)"
    unfolding installRuleFlow_def el using act nx by simp
  have mp: "MatchPriority (Match ?flow) = word_of_int (Priority rule)"
    by (simp add: madeFlow_def ruleFlowMatch_def)
  have fid: "FlowIDOf ?flow = globalFlowID (OfSwitch p)"
    by (simp add: madeFlow_def)
  have res: "AddMicroSegmentRule lib p rule direction tier =
            Returned (Inr \<lparr>Table = Some (specPolicyTable direction tier),
                           EntryPriority = word_of_int (Priority rule),
                           FlowID = globalFlowID (OfSwitch p)\<rparr>, p\<lparr>OfSwitch := ?sw2\<rparr>)"
    using conn by (simp add: AddMicroSegmentRule_def tt da sa nf inst mp fid)
  have pr: "uint (word_of_int (Priority rule) :: 16 word) = Priority rule"
    using prio by (simp add: uint_word_of_int take_bit_int_eq_self)
  have nn: "NextElem ?flow = None" by (simp add: madeFlow_def)
  have mem: "?flow\<lparr>NextElem := Some ?tgt\<rparr> \<in> set (installedFlows (OfSwitch (p\<lparr>OfSwitch := ?sw2\<rparr>)))"
    using installed_after_Next [OF nn, of ?tgt "flowDb (OfSwitch p)"]
    by (simp add: switchWith_def installedFlows_def)
  from res pr mem mp show ?thesis by blast
qed


lemma example_dst: "parseRuleIP exampleLib (DstIPAddr ruleR1) =
   Inr (Some [0,0,0,0,0,0,0,0,0,0,255,255,10,0,1,5],
        Some [0,0,0,0,0,0,0,0,0,0,255,255,255,255,255,255])"
  by code_simp

lemma example_src: "parseRuleIP exampleLib (SrcIPAddr ruleR1) =
   Inr (Some [0,0,0,0,0,0,0,0,0,0,255,255,10,0,0,0], Some [255,255,255,0])"
  by code_simp

theorem AddMicroSegmentRule_installs_witness:
  "isPolicySwitchConnected examplePolicyBridge \<and> tablesInitialised examplePolicyBridge \<and>
   (\<exists>p'. AddMicroSegmentRule exampleLib examplePolicyBridge ruleR1
            POLICY_DIRECTION_OUT POLICY_TIER1 =
          Returned (Inr \<lparr>Table = Some 25, EntryPriority = 80, FlowID = 1\<rparr>, p') \<and>
        \<lparr>FlowTable = 25,
         Match = ruleFlowMatch ruleR1
           (Some [0,0,0,0,0,0,0,0,0,0,255,255,10,0,1,5],
            Some [0,0,0,0,0,0,0,0,0,0,255,255,255,255,255,255])
           (Some [0,0,0,0,0,0,0,0,0,0,255,255,10,0,0,0], Some [255,255,255,0]),
         FlowIDOf = 1, NextElem = Some (TableElem 70)\<rparr>
          \<in> set (installedFlows (OfSwitch p')))"
proof -
  have conn: "isPolicySwitchConnected examplePolicyBridge"
    by (simp add: examplePolicyBridge_def)
  have init: "tablesInitialised examplePolicyBridge"
    by (simp add: examplePolicyBridge_def tablesInitialised_def table_consts)
  have dir: "POLICY_DIRECTION_OUT = POLICY_DIRECTION_OUT \<or> POLICY_DIRECTION_OUT = POLICY_DIRECTION_IN"
    by simp
  have tier: "POLICY_TIER1 = POLICY_TIER0 \<or> POLICY_TIER1 = POLICY_TIER1 \<or> POLICY_TIER1 = POLICY_TIER2"
    by simp
  have prio: "1 \<le> Priority ruleR1 \<and> Priority ruleR1 \<le> 100"
    by (simp add: ruleR1_def)
  have act: "Action ruleR1 = ''allow'' \<or> Action ruleR1 = ''deny''"
    by (simp add: ruleR1_def)
  have acc1: "\<not> NewFlowRefused exampleLib t m sw" for t m sw
    by (simp add: exampleLib_def)
  have acc2: "\<not> NextRefused exampleLib f e sw" for f e sw
    by (simp add: exampleLib_def)
  from AddMicroSegmentRule_installs [OF conn init dir tier prio example_dst example_src act acc1 acc2]
  obtain p' where
    r: "AddMicroSegmentRule exampleLib examplePolicyBridge ruleR1 POLICY_DIRECTION_OUT POLICY_TIER1 =
          Returned (Inr \<lparr>Table = Some (specPolicyTable POLICY_DIRECTION_OUT POLICY_TIER1),
                         EntryPriority = word_of_int (Priority ruleR1),
                         FlowID = globalFlowID (OfSwitch examplePolicyBridge)\<rparr>, p')"
    and m: "(madeFlow examplePolicyBridge ruleR1 POLICY_DIRECTION_OUT POLICY_TIER1
              (Some [0,0,0,0,0,0,0,0,0,0,255,255,10,0,1,5],
               Some [0,0,0,0,0,0,0,0,0,0,255,255,255,255,255,255])
              (Some [0,0,0,0,0,0,0,0,0,0,255,255,10,0,0,0], Some [255,255,255,0]))
            \<lparr>NextElem := Some (specTarget ruleR1 POLICY_DIRECTION_OUT POLICY_TIER1)\<rparr>
            \<in> set (installedFlows (OfSwitch p'))"
    by blast
  have t25: "specPolicyTable POLICY_DIRECTION_OUT POLICY_TIER1 = 25"
    by (simp add: specPolicyTable_def tier_consts)
  have t70: "specTarget ruleR1 POLICY_DIRECTION_OUT POLICY_TIER1 = TableElem 70"
    by (simp add: specTarget_def specNextTable_def tier_consts ruleR1_def)
  have p80: "(word_of_int (Priority ruleR1) :: 16 word) = 80"
    by (simp add: ruleR1_def)
  have g1: "globalFlowID (OfSwitch examplePolicyBridge) = 1"
    by (simp add: examplePolicyBridge_def emptySwitch_def)
  from r have r': "AddMicroSegmentRule exampleLib examplePolicyBridge ruleR1
            POLICY_DIRECTION_OUT POLICY_TIER1 =
          Returned (Inr \<lparr>Table = Some 25, EntryPriority = 80, FlowID = 1\<rparr>, p')"
    by (simp add: t25 p80 g1)
  from m have m': "\<lparr>FlowTable = 25,
         Match = ruleFlowMatch ruleR1
           (Some [0,0,0,0,0,0,0,0,0,0,255,255,10,0,1,5],
            Some [0,0,0,0,0,0,0,0,0,0,255,255,255,255,255,255])
           (Some [0,0,0,0,0,0,0,0,0,0,255,255,10,0,0,0], Some [255,255,255,0]),
         FlowIDOf = 1, NextElem = Some (TableElem 70)\<rparr>
          \<in> set (installedFlows (OfSwitch p'))"
    by (simp add: madeFlow_def t25 t70 g1)
  from conn init r' m' show ?thesis by blast
qed

text \<open>
  Claim C9. With a direction other than 0 (egress) and 1 (ingress), \<open>GetTierTable\<close>
  returns nil for both tables and no error, whatever the tier; \<open>AddMicroSegmentRule\<close>
  then never fails with the error of an unknown tier: once the rule's addresses have
  parsed it calls \<open>NewFlow\<close> on the nil table.
\<close>

theorem GetTierTable_other_direction:
  assumes "direction \<noteq> POLICY_DIRECTION_OUT" and "direction \<noteq> POLICY_DIRECTION_IN"
  shows "GetTierTable p direction tier = Inr (None, None) \<and>
         (\<forall>p'. AddMicroSegmentRule lib p rule direction tier \<noteq> Returned (Inl FailedGetPolicyTable, p')) \<and>
         (isPolicySwitchConnected p \<and> parseRuleIP lib (DstIPAddr rule) = Inr da \<and>
            parseRuleIP lib (SrcIPAddr rule) = Inr sa \<longrightarrow>
          AddMicroSegmentRule lib p rule direction tier = Crashed NilDereference)"
proof (intro conjI allI impI)
  show g: "GetTierTable p direction tier = Inr (None, None)"
    using assms by (simp add: GetTierTable_def)
  have pe: "parseRuleIP lib s \<noteq> Inl FailedGetPolicyTable" for s
    by (auto simp: parseRuleIP_def ParseIPAddrMaskString_def Let_def
          split: if_splits option.splits sum.splits prod.splits)
  show "AddMicroSegmentRule lib p rule direction tier \<noteq> Returned (Inl FailedGetPolicyTable, p')" for p'
    using pe [of "DstIPAddr rule"] pe [of "SrcIPAddr rule"]
    by (auto simp: AddMicroSegmentRule_def g NewFlow_def split: sum.splits)
  assume "isPolicySwitchConnected p \<and> parseRuleIP lib (DstIPAddr rule) = Inr da \<and>
            parseRuleIP lib (SrcIPAddr rule) = Inr sa"
  then show "AddMicroSegmentRule lib p rule direction tier = Crashed NilDereference"
    by (simp add: AddMicroSegmentRule_def g NewFlow_def)
qed

theorem GetTierTable_other_direction_witness:
  "GetTierTable examplePolicyBridge 2 POLICY_TIER1 = Inr (None, None) \<and>
   AddMicroSegmentRule exampleLib examplePolicyBridge ruleR1 2 POLICY_TIER1 = Crashed NilDereference"
proof -
  have a: "(2 :: 8 word) \<noteq> POLICY_DIRECTION_OUT" by (simp add: tier_consts)
  have b: "(2 :: 8 word) \<noteq> POLICY_DIRECTION_IN" by (simp add: tier_consts)
  have conn: "isPolicySwitchConnected examplePolicyBridge"
    by (simp add: examplePolicyBridge_def)
  show ?thesis
    using GetTierTable_other_direction [OF a b, of examplePolicyBridge POLICY_TIER1 exampleLib ruleR1]
      conn example_dst example_src
    by simp
qed

text \<open>
  Claim C6 (a malformed rule is answered with an error before any flow is touched) fails
  for an unknown tier given together with a direction other than 0 and 1: the call ends in
  a nil dereference instead of an error. With direction 2 and tier 99 on the example
  bridge:
\<close>

theorem AddMicroSegmentRule_unknown_tier_bad_direction:
  "AddMicroSegmentRule exampleLib examplePolicyBridge ruleR1 2 99 = Crashed NilDereference"
  by code_simp

text \<open>
  With direction 0 or 1 the errors are as the specification says: an unknown tier and an
  address that does not parse are answered before the switch is touched; an unknown
  action is answered after \<open>NewFlow\<close> has made the flow, which never reaches the switch.
\<close>

lemma AddMicroSegmentRule_malformed:
  assumes conn: "isPolicySwitchConnected p"
    and dir: "direction = POLICY_DIRECTION_OUT \<or> direction = POLICY_DIRECTION_IN"
  shows "(tier \<noteq> POLICY_TIER0 \<and> tier \<noteq> POLICY_TIER1 \<and> tier \<noteq> POLICY_TIER2 \<longrightarrow>
            AddMicroSegmentRule lib p rule direction tier = Returned (Inl FailedGetPolicyTable, p)) \<and>
         (GetTierTable p direction tier = Inr tt \<and> parseRuleIP lib (DstIPAddr rule) = Inl err \<longrightarrow>
            AddMicroSegmentRule lib p rule direction tier = Returned (Inl err, p)) \<and>
         (GetTierTable p direction tier = Inr tt \<and> parseRuleIP lib (DstIPAddr rule) = Inr da \<and>
            parseRuleIP lib (SrcIPAddr rule) = Inl err \<longrightarrow>
            AddMicroSegmentRule lib p rule direction tier = Returned (Inl err, p)) \<and>
         (Action rule \<noteq> ''allow'' \<and> Action rule \<noteq> ''deny'' \<and>
            AddMicroSegmentRule lib p rule direction tier = Returned (r, p') \<longrightarrow>
            (\<exists>e. r = Inl e) \<and> installedFlows (OfSwitch p') = installedFlows (OfSwitch p))"
proof (intro conjI impI)
  assume "tier \<noteq> POLICY_TIER0 \<and> tier \<noteq> POLICY_TIER1 \<and> tier \<noteq> POLICY_TIER2"
  then show "AddMicroSegmentRule lib p rule direction tier = Returned (Inl FailedGetPolicyTable, p)"
    using conn dir by (auto simp: AddMicroSegmentRule_def GetTierTable_def)
next
  assume "GetTierTable p direction tier = Inr tt \<and> parseRuleIP lib (DstIPAddr rule) = Inl err"
  then show "AddMicroSegmentRule lib p rule direction tier = Returned (Inl err, p)"
    using conn by (cases tt) (simp add: AddMicroSegmentRule_def)
next
  assume "GetTierTable p direction tier = Inr tt \<and> parseRuleIP lib (DstIPAddr rule) = Inr da \<and>
            parseRuleIP lib (SrcIPAddr rule) = Inl err"
  then show "AddMicroSegmentRule lib p rule direction tier = Returned (Inl err, p)"
    using conn by (cases tt) (simp add: AddMicroSegmentRule_def)
next
  assume h: "Action rule \<noteq> ''allow'' \<and> Action rule \<noteq> ''deny'' \<and>
            AddMicroSegmentRule lib p rule direction tier = Returned (r, p')"
  then show "\<exists>e. r = Inl e"
    using conn
    by (auto simp: AddMicroSegmentRule_def installRuleFlow_def NewFlow_def Let_def
          split: sum.splits prod.splits option.splits if_splits)
  from h show "installedFlows (OfSwitch p') = installedFlows (OfSwitch p)"
    using conn
    by (auto simp: AddMicroSegmentRule_def installRuleFlow_def NewFlow_def Let_def installedFlows_def
          split: sum.splits prod.splits option.splits if_splits)
qed

end
